theory Spec2Isabelle
  imports Complex_Main
begin

section \<open>Python strings and POSIX paths\<close>

text \<open>
  The manager is Python 2 code working on byte strings, so a path is a \<^typ>\<open>string\<close>.
  \<open>str_replace old new s\<close> is \<open>s.replace(old, new)\<close>: every non-overlapping
  occurrence of \<open>old\<close>, scanning from the left, is replaced (with an empty \<open>old\<close>
  Python inserts \<open>new\<close> before every character and at the end).
\<close>

fun str_replace :: "string \<Rightarrow> string \<Rightarrow> string \<Rightarrow> string" where
  "str_replace old new [] = (if old = [] then new else [])"
| "str_replace old new (c # cs) =
     (if old = [] then new @ c # str_replace old new cs
      else if take (length old) (c # cs) = old
        then new @ str_replace old new (drop (length old - 1) cs)
      else c # str_replace old new cs)"

definition startswith :: "string \<Rightarrow> string \<Rightarrow> bool" where
  "startswith s p = (take (length p) s = p)"

text \<open>\<open>os.path.isabs\<close>, \<open>os.path.split\<close> and \<open>os.path.join\<close> of \<open>posixpath\<close>.\<close>

definition isabs :: "string \<Rightarrow> bool" where
  "isabs p = startswith p ''/''"

definition rstrip_slash :: "string \<Rightarrow> string" where
  "rstrip_slash p = rev (dropWhile (\<lambda>c. c = CHR ''/'') (rev p))"

definition path_split :: "string \<Rightarrow> string \<times> string" where
  "path_split p =
     (let tail = rev (takeWhile (\<lambda>c. c \<noteq> CHR ''/'') (rev p));
          head = take (length p - length tail) p
      in (if head \<noteq> [] \<and> head \<noteq> replicate (length head) (CHR ''/'')
          then rstrip_slash head else head, tail))"

definition path_join :: "string \<Rightarrow> string \<Rightarrow> string" where
  "path_join a b =
     (if startswith b ''/'' then b
      else if a = [] \<or> last a = CHR ''/'' then a @ b
      else a @ ''/'' @ b)"

text \<open>\<open>str.split()\<close> without arguments: maximal runs of non-whitespace characters.\<close>

definition is_space :: "char \<Rightarrow> bool" where
  "is_space c = (c = CHR '' '' \<or> c = CHR 0x09 \<or> c = CHR 0x0A \<or> c = CHR 0x0B
                 \<or> c = CHR 0x0C \<or> c = CHR 0x0D)"

fun split_ws_from :: "string \<Rightarrow> string \<Rightarrow> string list" where
  "split_ws_from [] cur = (if cur = [] then [] else [rev cur])"
| "split_ws_from (c # cs) cur =
     (if is_space c
      then (if cur = [] then split_ws_from cs [] else rev cur # split_ws_from cs [])
      else split_ws_from cs (c # cur))"

definition split_ws :: "string \<Rightarrow> string list" where
  "split_ws s = split_ws_from s []"

text \<open>\<open>str.lower()\<close> on ASCII, and \<open>int(text)\<close> for an optionally signed run of digits.\<close>

definition lower_char :: "char \<Rightarrow> char" where
  "lower_char c =
     (let n = (of_char c :: nat) in if 65 \<le> n \<and> n \<le> 90 then char_of (n + 32) else c)"

fun parse_digits :: "string \<Rightarrow> nat \<Rightarrow> nat option" where
  "parse_digits [] acc = Some acc"
| "parse_digits (c # cs) acc =
     (let n = (of_char c :: nat) in
      if 48 \<le> n \<and> n \<le> 57 then parse_digits cs (10 * acc + (n - 48)) else None)"

definition py_int :: "string \<Rightarrow> int option" where
  "py_int t =
     (case t of
        [] \<Rightarrow> None
      | c # cs \<Rightarrow>
          if c = CHR ''-'' then (if cs = [] then None else map_option (\<lambda>n. - int n) (parse_digits cs 0))
          else if c = CHR ''+'' then (if cs = [] then None else map_option int (parse_digits cs 0))
          else map_option int (parse_digits (c # cs) 0))"

section \<open>The manager and the part of the system it acts on\<close>

text \<open>
  The status is one of the flag constants of \<open>pypiper.flags\<close> or the initial
  \<open>"initializing"\<close>. Exceptions are values; \<open>OSError\<close> and \<open>IOError\<close> are distinct
  classes in Python 2, and both carry an optional \<open>errno\<close>.
\<close>

datatype status = Initializing | Running | Waiting | Paused | Completed | Failed

datatype errno = EEXIST | EACCES | ENOENT | EISDIR | ESRCH

datatype exn =
    PyException string
  | OSError "errno option"
  | IOError "errno option"
  | CalledProcessError
  | IndexError
  | ValueError
  | KeyboardInterrupt string

text \<open>
  What the operating system contributes. \<open>procfile\<close> is the state of
  \<open>/proc/<pid>/status\<close>: absent, opened but gone when read, or its lines. An
  \<open>outcome\<close> is what \<open>subprocess.Popen\<close> does with a command: it raises, or it
  starts a child with a pid, the states of its status file at each poll that finds it
  still running, and its return code. An \<open>fs_action\<close> is one step of another process
  on the shared output folder.
\<close>

datatype procfile = NoFile | Unreadable | Content "string list"

datatype outcome = ExecFails errno | Child nat "procfile list" int

datatype fs_action = Touch string | Unlink string | Idle

datatype event = Popen string bool | Kill nat | Follow

datatype category = Peak | Rss | Hwm

record proc_info =
  proc_name :: string
  start_time :: rat
  pre_block :: bool
  proc_container :: "string option"

record profile_row =
  row_command :: string
  row_lock :: "string option"
  row_elapsed :: rat
  row_memory :: rat

text \<open>
  Functions that \<open>manager.py\<close> imports from modules whose sources are not at hand
  (\<open>pipeline_filepath\<close> from \<open>.pipeline\<close>; \<open>flag_name\<close>, \<open>make_lock_name\<close> and
  \<open>check_shell\<close> from \<open>.utils\<close>; \<open>translate_stage_name\<close> and
  \<open>CHECKPOINT_EXTENSION\<close> from \<open>.stage\<close>), and the standard library's \<open>glob.glob\<close>
  as a function of the pattern and the paths that exist. They are parameters of the
  model: \<open>pipeline_filepath\<close> receives the manager's name and output folder and the
  file name.
\<close>

record helpers =
  pipeline_filepath :: "string \<Rightarrow> string \<Rightarrow> string \<Rightarrow> string"
  flag_name :: "status \<Rightarrow> string"
  make_lock_name :: "string option \<Rightarrow> string \<Rightarrow> string"
  translate_stage_name :: "string \<Rightarrow> string"
  checkpoint_extension :: string
  check_shell :: "string \<Rightarrow> bool"
  glob :: "string \<Rightarrow> string set \<Rightarrow> string list"

text \<open>
  The state: the attributes of the \<open>PipelineManager\<close> object that the engine reads or
  writes, followed by the files, processes and clock of the machine, the files the manager
  appends to, and the trace of process-level events (children started and killed,
  follow-up functions called). \<open>denied\<close> holds the paths at which the system refuses to
  create a file; \<open>rivals\<close> is the schedule of the other processes that share the folder.
  Time only passes in \<open>time.sleep\<close>. Times and memory sizes, floats in Python, are
  rationals.
\<close>

record pm =
  name :: string
  outfolder :: string
  cleanup_file :: string
  overwrite_locks :: bool
  force_follow :: bool
  manual_clean :: bool
  overwrite_checkpoints :: bool
  wait :: bool
  status :: status
  locks :: "string list"
  procs :: "(nat \<times> proc_info) list"
  peak_memory :: rat
  cleanup_list :: "string list"
  cleanup_list_conditional :: "string list"
  files :: "string set"
  dirs :: "string set"
  denied :: "string set"
  proc_status :: "nat \<Rightarrow> procfile"
  docker_usage :: "string \<Rightarrow> exn + rat"
  os_exec :: "string \<Rightarrow> bool \<Rightarrow> outcome"
  rivals :: "fs_action list"
  clock :: rat
  profile :: "profile_row list"
  commands :: "string list"
  cleanup_script :: "string list"
  trace :: "event list"

subsection \<open>File system primitives\<close>

definition isfile :: "pm \<Rightarrow> string \<Rightarrow> bool" where
  "isfile s p = (p \<in> files s)"

definition path_exists :: "pm \<Rightarrow> string \<Rightarrow> bool" where
  "path_exists s p = (p \<in> files s \<or> p \<in> dirs s)"

text \<open>
  \<open>_create_file\<close> opens for writing, which creates or truncates; it is taken to succeed.
  \<open>_create_file_racefree\<close> opens with \<open>O_CREAT | O_EXCL | O_WRONLY\<close>: it raises
  \<open>OSError\<close> with \<open>EEXIST\<close> when the path exists and with \<open>EACCES\<close> when the system
  refuses the creation.
\<close>

definition create_file :: "string \<Rightarrow> pm \<Rightarrow> pm" where
  "create_file p s = s\<lparr>files := insert p (files s)\<rparr>"

definition create_file_racefree :: "string \<Rightarrow> pm \<Rightarrow> exn + pm" where
  "create_file_racefree p s =
     (if path_exists s p then Inl (OSError (Some EEXIST))
      else if p \<in> denied s then Inl (OSError (Some EACCES))
      else Inr (s\<lparr>files := insert p (files s)\<rparr>))"

definition os_remove :: "string \<Rightarrow> pm \<Rightarrow> exn + pm" where
  "os_remove p s =
     (if p \<in> files s then Inr (s\<lparr>files := files s - {p}\<rparr>)
      else if p \<in> dirs s then Inl (OSError (Some EISDIR))
      else Inl (OSError (Some ENOENT)))"

fun apply_action :: "fs_action \<Rightarrow> pm \<Rightarrow> pm" where
  "apply_action (Touch p) s = s\<lparr>files := insert p (files s)\<rparr>"
| "apply_action (Unlink p) s = s\<lparr>files := files s - {p}\<rparr>"
| "apply_action Idle s = s"

text \<open>A point at which another process may act: the next step of the schedule, if any.\<close>

definition yield :: "pm \<Rightarrow> pm" where
  "yield s =
     (case rivals s of
        [] \<Rightarrow> s
      | a # rest \<Rightarrow> apply_action a (s\<lparr>rivals := rest\<rparr>))"

subsection \<open>Lock and recovery paths\<close>

definition LOCK_PREFIX :: string where
  "LOCK_PREFIX = ''lock.''"

definition ensure_lock_prefix :: "string \<Rightarrow> string" where
  "ensure_lock_prefix lock_name_base =
     (if startswith lock_name_base LOCK_PREFIX then lock_name_base
      else LOCK_PREFIX @ lock_name_base)"

definition make_lock_path :: "helpers \<Rightarrow> pm \<Rightarrow> string \<Rightarrow> string" where
  "make_lock_path h s lock_name_base =
     (let (base, nm) = path_split lock_name_base;
          lock_nm = ensure_lock_prefix nm;
          lock_nm' = (if base \<noteq> [] then path_join base lock_nm else lock_nm)
      in pipeline_filepath h (name s) (outfolder s) lock_nm')"

definition recoverfile_from_lockfile :: "helpers \<Rightarrow> pm \<Rightarrow> string \<Rightarrow> string" where
  "recoverfile_from_lockfile h s lockfile =
     (let lockfile' =
            (if \<not> (isabs lockfile \<or> startswith lockfile (outfolder s))
             then make_lock_path h s lockfile else lockfile)
      in str_replace LOCK_PREFIX (''recover.'' @ LOCK_PREFIX) lockfile')"

subsection \<open>Status flag\<close>

definition flag_file_path :: "helpers \<Rightarrow> pm \<Rightarrow> string" where
  "flag_file_path h s =
     pipeline_filepath h (name s) (outfolder s) (name s @ ''_'' @ flag_name h (status s))"

text \<open>
  \<open>set_status_flag\<close>: the previous flag file is removed (a failure is only reported),
  the field is set, the new flag file is created.
\<close>

definition set_status_flag :: "helpers \<Rightarrow> status \<Rightarrow> pm \<Rightarrow> pm" where
  "set_status_flag h st s =
     (let s1 = s\<lparr>files := files s - {flag_file_path h s}\<rparr>;
          s2 = s1\<lparr>status := st\<rparr>
      in create_file (flag_file_path h s2) s2)"

subsection \<open>Memory sampling\<close>

definition truthy :: "string option \<Rightarrow> bool" where
  "truthy c = (case c of None \<Rightarrow> False | Some x \<Rightarrow> x \<noteq> [])"

definition key_category :: "string \<Rightarrow> category option" where
  "key_category k =
     (if k = ''peak'' then Some Peak
      else if k = ''rss'' then Some Rss
      else if k = ''hwm'' then Some Hwm
      else None)"

text \<open>
  The loop over the lines of the status file: \<open>parts = line.split()\<close>,
  \<open>key = parts[0][2:-1].lower()\<close>, and \<open>result[key] = int(parts[1])\<close> when the key is
  one of the three. A line without a first or second part raises \<open>IndexError\<close>, a
  second part that is not an integer raises \<open>ValueError\<close>.
\<close>

fun read_status :: "string list \<Rightarrow> (category \<Rightarrow> int) \<Rightarrow> exn + (category \<Rightarrow> int)" where
  "read_status [] result = Inr result"
| "read_status (line # rest) result =
     (case split_ws line of
        [] \<Rightarrow> Inl IndexError
      | p0 # ps \<Rightarrow>
          (case key_category (map lower_char (butlast (drop 2 p0))) of
             None \<Rightarrow> read_status rest result
           | Some k \<Rightarrow>
               (case ps of
                  [] \<Rightarrow> Inl IndexError
                | p1 # _ \<Rightarrow>
                    (case py_int p1 of
                       None \<Rightarrow> Inl ValueError
                     | Some v \<Rightarrow> read_status rest (result(k := v))))))"

text \<open>
  \<open>_memory_usage(pid, category, container)\<close>, in kilobytes. With a container the value
  comes from \<open>docker stats\<close>, represented by its result \<open>docker_usage\<close>. Otherwise the
  status file is opened and read inside \<open>try: ... finally: status.close()\<close>; there is no
  \<open>except\<close> clause, so what \<open>open\<close> or the loop raises leaves the function.
\<close>

definition memory_usage :: "pm \<Rightarrow> nat \<Rightarrow> category \<Rightarrow> string option \<Rightarrow> exn + rat" where
  "memory_usage s pid cat container =
     (if truthy container then docker_usage s (the container)
      else
        (case proc_status s pid of
           NoFile \<Rightarrow> Inl (IOError (Some ENOENT))
         | Unreadable \<Rightarrow> Inl (IOError (Some ESRCH))
         | Content ls \<Rightarrow>
             (case read_status ls (\<lambda>_. 0) of
                Inl e \<Rightarrow> Inl e
              | Inr result \<Rightarrow> Inr (of_int (result cat)))))"

subsection \<open>Reports\<close>

definition report_profile :: "string \<Rightarrow> string option \<Rightarrow> rat \<Rightarrow> rat \<Rightarrow> pm \<Rightarrow> pm" where
  "report_profile command lock_nm elapsed_time memory s =
     s\<lparr>profile := profile s @
        [\<lparr>row_command = command, row_lock = lock_nm,
          row_elapsed = elapsed_time, row_memory = memory\<rparr>]\<rparr>"

definition report_command :: "string \<Rightarrow> pm \<Rightarrow> pm" where
  "report_command c s = s\<lparr>commands := commands s @ [c]\<rparr>"

subsection \<open>Failing the pipeline\<close>

definition kill_child_process :: "nat \<Rightarrow> pm \<Rightarrow> pm" where
  "kill_child_process child_pid s = s\<lparr>trace := trace s @ [Kill child_pid]\<rparr>"

definition del_proc :: "nat \<Rightarrow> (nat \<times> proc_info) list \<Rightarrow> (nat \<times> proc_info) list" where
  "del_proc pid ps = filter (\<lambda>kv. fst kv \<noteq> pid) ps"

text \<open>
  \<open>_terminate_running_subprocesses\<close>: for every registered child, a last memory sample,
  a profile row with no lock name, \<open>SIGTERM\<close>, and removal from \<open>procs\<close>.
\<close>

fun terminate_loop :: "(nat \<times> proc_info) list \<Rightarrow> pm \<Rightarrow> (exn + unit) \<times> pm" where
  "terminate_loop [] s = (Inr (), s)"
| "terminate_loop ((pid, info) # rest) s =
     (case memory_usage s pid Hwm (proc_container info) of
        Inl e \<Rightarrow> (Inl e, s)
      | Inr kb \<Rightarrow>
          (let s1 = report_profile (proc_name info) None (clock s - start_time info)
                      (kb / 1000000) s;
               s2 = kill_child_process pid s1;
               s3 = s2\<lparr>procs := del_proc pid (procs s2)\<rparr>
           in terminate_loop rest s3))"

definition terminate_running_subprocesses :: "pm \<Rightarrow> (exn + unit) \<times> pm" where
  "terminate_running_subprocesses s = terminate_loop (procs s) s"

text \<open>The loop of \<open>fail_pipeline\<close> over a copy of \<open>locks\<close>, run when \<open>dynamic_recover\<close> is set.\<close>

fun recover_loop :: "helpers \<Rightarrow> string list \<Rightarrow> pm \<Rightarrow> (exn + unit) \<times> pm" where
  "recover_loop h [] s = (Inr (), s)"
| "recover_loop h (lock_file # rest) s =
     (case create_file_racefree (recoverfile_from_lockfile h s lock_file) s of
        Inl e \<Rightarrow> (Inl e, s)
      | Inr s1 \<Rightarrow> recover_loop h rest (s1\<lparr>locks := remove1 lock_file (locks s1)\<rparr>))"

text \<open>
  \<open>_cleanup(dry_run=True)\<close>. The unconditional list is moved behind the conditional one.
  Then, for every pattern of the conditional list, each matched item opens the cleanup
  script for appending, which creates it; the test that follows reads the variable
  \<open>file\<close>, which is local to \<open>_cleanup\<close> and not bound on this path, so the
  \<open>except Exception\<close> of that pattern is entered before any line is written.
\<close>

definition cleanup_dry_run :: "helpers \<Rightarrow> pm \<Rightarrow> pm" where
  "cleanup_dry_run h s =
     (let s1 = (if cleanup_list s \<noteq> []
                then s\<lparr>cleanup_list_conditional := cleanup_list_conditional s @ cleanup_list s,
                       cleanup_list := []\<rparr>
                else s)
      in if list_ex (\<lambda>pat. glob h pat (files s1 \<union> dirs s1) \<noteq> []) (cleanup_list_conditional s1)
         then s1\<lparr>files := insert (cleanup_file s1) (files s1)\<rparr>
         else s1)"

text \<open>
  \<open>fail_pipeline(e, dynamic_recover)\<close> never returns: it ends in \<open>raise e\<close>, or an
  earlier step raises. The result is the exception that leaves it and the state then.
\<close>

definition fail_pipeline :: "helpers \<Rightarrow> exn \<Rightarrow> bool \<Rightarrow> pm \<Rightarrow> exn \<times> pm" where
  "fail_pipeline h e dynamic_recover s =
     (case terminate_running_subprocesses s of
        (Inl x, s1) \<Rightarrow> (x, s1)
      | (Inr _, s1) \<Rightarrow>
          (case (if dynamic_recover then recover_loop h (locks s1) s1 else (Inr (), s1)) of
             (Inl x, s2) \<Rightarrow> (x, s2)
           | (Inr _, s2) \<Rightarrow>
               (let s3 = cleanup_dry_run h s2;
                    s4 = (if status s3 \<noteq> Failed then set_status_flag h Failed s3 else s3)
                in (e, s4))))"

subsection \<open>Running one command\<close>

datatype shell_mode = Guess | Shell bool

text \<open>
  How the \<open>try\<close> block of \<open>callprint\<close> ends, with the values that \<open>returncode\<close> and
  \<open>local_maxmem\<close> have at that moment: the early \<open>return [0, -1]\<close> of a manager that
  does not wait, the end of the block, or an exception.
\<close>

datatype try_result = Returned int rat | Finished int rat | Raised exn int rat

text \<open>
  The polling loop \<open>while p.poll() is None\<close>: one round for every status-file state of
  the child's outcome. A command run directly is sampled in each round; then the loop
  sleeps and the sleep time grows by 5 up to 60.
\<close>

fun poll_loop ::
  "nat \<Rightarrow> bool \<Rightarrow> string option \<Rightarrow> procfile list \<Rightarrow> rat \<Rightarrow> rat \<Rightarrow> pm \<Rightarrow> (exn option \<times> rat) \<times> pm"
where
  "poll_loop pid sh container [] local_maxmem sleeptime s = ((None, local_maxmem), s)"
| "poll_loop pid sh container (pf # rest) local_maxmem sleeptime s =
     (let s1 = s\<lparr>proc_status := (proc_status s)(pid := pf)\<rparr> in
      if \<not> sh then
        (case memory_usage s1 pid Hwm container of
           Inl e \<Rightarrow> ((Some e, local_maxmem), s1)
         | Inr kb \<Rightarrow>
             poll_loop pid sh container rest (max local_maxmem (kb / 1000000))
               (min (sleeptime + 5) 60) (s1\<lparr>clock := clock s1 + sleeptime\<rparr>))
      else
        poll_loop pid sh container rest local_maxmem
          (min (sleeptime + 5) 60) (s1\<lparr>clock := clock s1 + sleeptime\<rparr>))"

text \<open>
  The \<open>try\<close> block of \<open>callprint\<close>: start the child, register it in \<open>procs\<close>, poll
  it, then update the peak memory, write the profile row and unregister it; a nonzero
  return code is raised as an \<open>OSError\<close> without errno. Once the child has been reaped
  its status file is gone.
\<close>

definition set_proc :: "nat \<Rightarrow> proc_info \<Rightarrow> (nat \<times> proc_info) list \<Rightarrow> (nat \<times> proc_info) list" where
  "set_proc pid info ps = del_proc pid ps @ [(pid, info)]"

definition callprint_try ::
  "string \<Rightarrow> string \<Rightarrow> bool \<Rightarrow> string option \<Rightarrow> string option \<Rightarrow> pm \<Rightarrow> try_result \<times> pm"
where
  "callprint_try proc_nm c sh container lock_nm s =
     (let s0 = s\<lparr>trace := trace s @ [Popen c sh]\<rparr> in
      case os_exec s0 c sh of
        ExecFails en \<Rightarrow> (Raised (OSError (Some en)) (- 1) (- 1), s0)
      | Child pid polls rc \<Rightarrow>
          (let s1 = s0\<lparr>procs := set_proc pid
                       \<lparr>proc_name = proc_nm, start_time = clock s0, pre_block = True,
                        proc_container = container\<rparr> (procs s0)\<rparr>
           in if \<not> wait s1 then (Returned 0 (- 1), s1)
              else
                (case poll_loop pid sh container polls (- 1) (1 / 4) s1 of
                   ((Some e, m), s2) \<Rightarrow> (Raised e (- 1) m, s2)
                 | ((None, m), s2) \<Rightarrow>
                     (let s3 = s2\<lparr>proc_status := (proc_status s2)(pid := NoFile)\<rparr>;
                          s4 = s3\<lparr>peak_memory := max (peak_memory s3) m\<rparr>;
                          s5 = report_profile proc_nm lock_nm (clock s4 - clock s0) m s4;
                          s6 = s5\<lparr>procs := del_proc pid (procs s5)\<rparr>
                      in if rc \<noteq> 0 then (Raised (OSError None) rc m, s6)
                         else (Finished rc m, s6)))))"

text \<open>\<open>_triage_error(e, nofail, errmsg)\<close>; the message is only printed.\<close>

definition triage_error :: "helpers \<Rightarrow> exn \<Rightarrow> bool \<Rightarrow> pm \<Rightarrow> (exn + unit) \<times> pm" where
  "triage_error h e nofail s =
     (if \<not> nofail then (case fail_pipeline h e False s of (x, s') \<Rightarrow> (Inl x, s'))
      else if status s = Failed then (Inl e, s)
      else (Inr (), s))"

text \<open>The classes named by \<open>except (OSError, subprocess.CalledProcessError)\<close>.\<close>

fun caught :: "exn \<Rightarrow> bool" where
  "caught (OSError _) = True"
| "caught CalledProcessError = True"
| "caught _ = False"

text \<open>
  \<open>callprint(cmd, shell, nofail, container, lock_name)\<close>. The command is prefixed for a
  container, written to the commands file, and its first word becomes the process name
  (\<open>"".join(cmd).split()[0]\<close>, an \<open>IndexError\<close> for a blank command). The word splitting
  of \<open>shlex.split\<close> for a direct command is left to the system: \<open>os_exec\<close> receives the
  command text and the shell flag.
\<close>

definition container_cmd :: "string option \<Rightarrow> string \<Rightarrow> string" where
  "container_cmd container c0 =
     (if truthy container then ''docker exec '' @ the container @ '' '' @ c0 else c0)"

definition shell_flag :: "helpers \<Rightarrow> shell_mode \<Rightarrow> string \<Rightarrow> bool" where
  "shell_flag h shell c = (case shell of Guess \<Rightarrow> check_shell h c | Shell b \<Rightarrow> b)"

definition callprint ::
  "helpers \<Rightarrow> string \<Rightarrow> shell_mode \<Rightarrow> bool \<Rightarrow> string option \<Rightarrow> string option \<Rightarrow> pm
     \<Rightarrow> (exn + int \<times> rat) \<times> pm"
where
  "callprint h c0 shell nofail container lock_nm s =
     (let c = container_cmd container c0;
          s1 = report_command c s
      in case split_ws c of
           [] \<Rightarrow> (Inl IndexError, s1)
         | proc_nm # _ \<Rightarrow>
             (let sh = shell_flag h shell c
              in case callprint_try proc_nm c sh container lock_nm s1 of
                   (Returned r m, s2) \<Rightarrow> (Inr (r, m), s2)
                 | (Finished r m, s2) \<Rightarrow> (Inr (r, m), s2)
                 | (Raised e r m, s2) \<Rightarrow>
                     if caught e then
                       (case triage_error h e nofail s2 of
                          (Inl x, s3) \<Rightarrow> (Inl x, s3)
                        | (Inr _, s3) \<Rightarrow> (Inr (r, m), s3))
                     else (Inl e, s2)))"

subsection \<open>Cleanup registration and waiting\<close>

text \<open>
  \<open>clean_add(regex, conditional, manual)\<close>. In manual mode every match of the pattern
  opens the cleanup script for appending and writes its \<open>rm\<close> lines (nothing for a match
  that is neither file nor directory); the whole is wrapped in a bare \<open>except\<close>.
\<close>

fun manual_lines :: "pm \<Rightarrow> string list \<Rightarrow> string list" where
  "manual_lines s [] = []"
| "manual_lines s (f # fs) =
     (if f \<in> files s then [''rm '' @ f]
      else if f \<in> dirs s then [''rm '' @ f @ ''/*'', ''rmdir '' @ f]
      else []) @ manual_lines s fs"

definition clean_add :: "helpers \<Rightarrow> string \<Rightarrow> bool \<Rightarrow> bool \<Rightarrow> pm \<Rightarrow> pm" where
  "clean_add h regex conditional manual s =
     (if manual_clean s \<or> manual then
        (let matches = glob h regex (files s \<union> dirs s) in
         if matches = [] then s
         else s\<lparr>files := insert (cleanup_file s) (files s),
                cleanup_script := cleanup_script s @ manual_lines s matches\<rparr>)
      else if conditional then
        s\<lparr>cleanup_list_conditional := cleanup_list_conditional s @ [regex]\<rparr>
      else
        s\<lparr>cleanup_list := cleanup_list s @ [regex],
          cleanup_list_conditional := removeAll regex (cleanup_list_conditional s)\<rparr>)"

text \<open>
  \<open>_wait_for_lock(lock_file)\<close>: while the file exists, the first round sets the status
  to waiting, and every round sleeps (0.5 s, growing by 2.5 up to 60), during which one
  step of the other processes happens. With the file present and nobody left to act the
  loop never ends: \<open>None\<close>. After a wait the status is set back to running.
\<close>

fun wait_loop ::
  "helpers \<Rightarrow> string \<Rightarrow> bool \<Rightarrow> rat \<Rightarrow> fs_action list \<Rightarrow> pm \<Rightarrow> (bool \<times> pm) option"
where
  "wait_loop h lock_file first_message_flag sleeptime [] s =
     (if isfile s lock_file then None else Some (first_message_flag, s\<lparr>rivals := []\<rparr>))"
| "wait_loop h lock_file first_message_flag sleeptime (a # rest) s =
     (if isfile s lock_file then
        (let s1 = (if \<not> first_message_flag then set_status_flag h Waiting s else s);
             s2 = apply_action a (s1\<lparr>clock := clock s1 + sleeptime\<rparr>)
         in wait_loop h lock_file True (min (sleeptime + 5 / 2) 60) rest s2)
      else Some (first_message_flag, s\<lparr>rivals := a # rest\<rparr>))"

definition wait_for_lock :: "helpers \<Rightarrow> string \<Rightarrow> pm \<Rightarrow> pm option" where
  "wait_for_lock h lock_file s =
     (case wait_loop h lock_file False (1 / 2) (rivals s) s of
        None \<Rightarrow> None
      | Some (first_message_flag, s1) \<Rightarrow>
          Some (if first_message_flag then set_status_flag h Running s1 else s1))"

subsection \<open>The execution controller\<close>

datatype cmd = Single string | Many "string list"

datatype target = Path string | Paths "string list"

datatype follow_fn = NoFollow | NotCallable | Callable

record run_args =
  cmd :: cmd
  target :: "target option"
  lock_name :: "string option"
  shell :: shell_mode
  nofail :: bool
  clean :: bool
  follow :: follow_fn
  container :: "string option"
  checkpoint :: "string option"
  checkpoint_filename :: "string option"
  overwrite_checkpoint :: bool

text \<open>
  \<open>call_follow\<close>: the follow-up function is called when it is callable; its own effects
  are outside the manager, the trace records the call.
\<close>

fun call_follow :: "follow_fn \<Rightarrow> pm \<Rightarrow> pm" where
  "call_follow Callable s = s\<lparr>trace := trace s @ [Follow]\<rparr>"
| "call_follow _ s = s"

definition check_names :: "helpers \<Rightarrow> run_args \<Rightarrow> string list" where
  "check_names h a =
     (case checkpoint_filename a of
        Some f \<Rightarrow> [f]
      | None \<Rightarrow>
          (case checkpoint a of
             Some c \<Rightarrow> [c @ checkpoint_extension h, translate_stage_name h c @ checkpoint_extension h]
           | None \<Rightarrow> []))"

text \<open>
  The search for a checkpoint file: \<open>True\<close> when the loop reaches \<open>return 0\<close>, that is
  when the first candidate that exists is found with no overwrite flag set.
\<close>

fun checkpoint_skip :: "helpers \<Rightarrow> bool \<Rightarrow> pm \<Rightarrow> string list \<Rightarrow> bool" where
  "checkpoint_skip h overwrite s [] = False"
| "checkpoint_skip h overwrite s (fname # rest) =
     (if isfile s (pipeline_filepath h (name s) (outfolder s) fname)
      then \<not> overwrite
      else checkpoint_skip h overwrite s rest)"

definition first_target :: "target option \<Rightarrow> exn + string option" where
  "first_target t =
     (case t of
        None \<Rightarrow> Inr None
      | Some (Path p) \<Rightarrow> Inr (Some p)
      | Some (Paths []) \<Rightarrow> Inl IndexError
      | Some (Paths (p # _)) \<Rightarrow> Inr (Some p))"

text \<open>The command list: return code and memory are folded with \<open>max\<close>, starting from 0.\<close>

fun run_list ::
  "helpers \<Rightarrow> shell_mode \<Rightarrow> bool \<Rightarrow> string option \<Rightarrow> string list \<Rightarrow> int \<Rightarrow> rat \<Rightarrow> pm
     \<Rightarrow> (exn + int \<times> rat) \<times> pm"
where
  "run_list h sh nf ct [] process_return_code local_maxmem s =
     (Inr (process_return_code, local_maxmem), s)"
| "run_list h sh nf ct (cmd_i # rest) process_return_code local_maxmem s =
     (case callprint h cmd_i sh nf ct None s of
        (Inl e, s1) \<Rightarrow> (Inl e, s1)
      | (Inr (list_ret, list_maxmem), s1) \<Rightarrow>
          run_list h sh nf ct rest (max process_return_code list_ret)
            (max local_maxmem list_maxmem) s1)"

text \<open>
  The part of the loop body after the tests: run the command or commands, register the
  target for cleanup, call the follow-up, remove the lock file and its \<open>locks\<close> entry.
\<close>

definition execute :: "helpers \<Rightarrow> run_args \<Rightarrow> string option \<Rightarrow> string \<Rightarrow> pm \<Rightarrow> (exn + int) \<times> pm" where
  "execute h a tgt lock_file s =
     (case (case cmd a of
              Many cs \<Rightarrow> run_list h (shell a) (nofail a) (container a) cs 0 0 s
            | Single c \<Rightarrow> callprint h c (shell a) (nofail a) (container a) None s) of
        (Inl e, s1) \<Rightarrow> (Inl e, s1)
      | (Inr (process_return_code, local_maxmem), s1) \<Rightarrow>
          (let s2 = (if tgt \<noteq> None \<and> clean a then clean_add h (the tgt) False False s1 else s1);
               s3 = call_follow (follow a) s2
           in case os_remove lock_file s3 of
                Inl e \<Rightarrow> (Inl e, s3)
              | Inr s4 \<Rightarrow> (Inr process_return_code, s4\<lparr>locks := remove1 lock_file (locks s4)\<rparr>)))"

text \<open>
  The \<open>while True\<close> loop of \<open>run\<close>. The first argument bounds the number of rounds;
  \<open>None\<close> stands for a run that does not come back (rounds used up, or a lock that is
  never released). Another process may act between the tests and the exclusive creation
  of the lock file.
\<close>

fun run_loop ::
  "helpers \<Rightarrow> nat \<Rightarrow> run_args \<Rightarrow> string option \<Rightarrow> string \<Rightarrow> string \<Rightarrow> bool \<Rightarrow> pm
     \<Rightarrow> ((exn + int) \<times> pm) option"
where
  "run_loop h 0 a tgt lock_file recover_file recover_mode s = None"
| "run_loop h (Suc n) a tgt lock_file recover_file recover_mode s =
     (if tgt \<noteq> None \<and> path_exists s (the tgt) \<and> \<not> isfile s lock_file then
        Some (Inr 0, if force_follow s then call_follow (follow a) s else s)
      else if isfile s lock_file \<and> \<not> overwrite_locks s \<and> \<not> isfile s recover_file then
        (case wait_for_lock h lock_file s of
           None \<Rightarrow> None
         | Some s1 \<Rightarrow> run_loop h n a tgt lock_file recover_file recover_mode s1)
      else
        (case (if isfile s lock_file \<and> \<not> overwrite_locks s
               then (case os_remove recover_file s of
                       Inl e \<Rightarrow> Inl e
                     | Inr s1 \<Rightarrow> Inr (True, s1))
               else Inr (recover_mode, s)) of
           Inl e \<Rightarrow> Some (Inl e, s)
         | Inr (recover_mode1, s1) \<Rightarrow>
             (let s2 = s1\<lparr>locks := locks s1 @ [lock_file]\<rparr> in
              if overwrite_locks s2 \<or> recover_mode1 then
                Some (execute h a tgt lock_file (create_file lock_file s2))
              else
                (let s3 = yield s2 in
                 case create_file_racefree lock_file s3 of
                   Inl e \<Rightarrow>
                     if e = OSError (Some EEXIST)
                     then run_loop h n a tgt lock_file recover_file recover_mode1 s3
                     else Some (execute h a tgt lock_file s3)
                 | Inr s4 \<Rightarrow> Some (execute h a tgt lock_file s4)))))"

text \<open>\<open>run\<close>, from the argument check to the loop.\<close>

definition run :: "helpers \<Rightarrow> nat \<Rightarrow> run_args \<Rightarrow> pm \<Rightarrow> ((exn + int) \<times> pm) option" where
  "run h fuel a s =
     (if target a = None \<and> lock_name a = None then
        (case fail_pipeline h (PyException ''You must provide either a target or a lock_name.'')
                False s of
           (x, s') \<Rightarrow> Some (Inl x, s'))
      else if checkpoint_skip h (overwrite_checkpoints s \<or> overwrite_checkpoint a) s
                (check_names h a) then
        Some (Inr 0, s)
      else
        (case first_target (target a) of
           Inl e \<Rightarrow> Some (Inl e, s)
         | Inr tgt \<Rightarrow>
             (let lock_nm = (if truthy (lock_name a) then the (lock_name a)
                             else make_lock_name h tgt (outfolder s));
                  lock_file = make_lock_path h s lock_nm;
                  recover_file = recoverfile_from_lockfile h s lock_file
              in run_loop h fuel a tgt lock_file recover_file False s)))"

subsection \<open>Conditions on the state used in the statements\<close>

text \<open>
  A registered child is \<open>samplable\<close> when its last memory sample can be taken. The
  locks are \<open>recoverable\<close> when the recovery files of the held locks are pairwise
  different paths at which nothing exists, creation is not refused, and which are not
  the current flag file. \<open>final_row\<close> is the profile row written for a child that is
  terminated.
\<close>

definition samplable :: "pm \<Rightarrow> nat \<times> proc_info \<Rightarrow> bool" where
  "samplable s kv =
     (case memory_usage s (fst kv) Hwm (proc_container (snd kv)) of
        Inl _ \<Rightarrow> False
      | Inr _ \<Rightarrow> True)"

definition final_row :: "pm \<Rightarrow> nat \<times> proc_info \<Rightarrow> profile_row" where
  "final_row s kv =
     \<lparr>row_command = proc_name (snd kv), row_lock = None,
      row_elapsed = clock s - start_time (snd kv),
      row_memory = (case memory_usage s (fst kv) Hwm (proc_container (snd kv)) of
                      Inl _ \<Rightarrow> 0
                    | Inr kb \<Rightarrow> kb / 1000000)\<rparr>"

definition recoverable :: "helpers \<Rightarrow> pm \<Rightarrow> bool" where
  "recoverable h s =
     (distinct (map (recoverfile_from_lockfile h s) (locks s)) \<and>
      list_all (\<lambda>l. \<not> path_exists s (recoverfile_from_lockfile h s l)
                   \<and> recoverfile_from_lockfile h s l \<notin> denied s
                   \<and> recoverfile_from_lockfile h s l \<noteq> flag_file_path h s) (locks s))"


subsection \<open>A concrete manager\<close>

text \<open>
  Helper functions in the spirit of the missing modules, a manager named \<open>p\<close> running
  in the output folder \<open>/o/\<close>, and a call \<open>run("echo hi", target="/o/t", follow=f)\<close>.
\<close>

definition example_helpers :: helpers where
  "example_helpers =
     \<lparr>pipeline_filepath = (\<lambda>nm out f. path_join out f),
      flag_name = (\<lambda>st. case st of
                     Initializing \<Rightarrow> ''initializing.flag'' | Running \<Rightarrow> ''running.flag''
                   | Waiting \<Rightarrow> ''waiting.flag'' | Paused \<Rightarrow> ''paused.flag''
                   | Completed \<Rightarrow> ''completed.flag'' | Failed \<Rightarrow> ''failed.flag''),
      make_lock_name = (\<lambda>t out. case t of
                          None \<Rightarrow> []
                        | Some p \<Rightarrow> str_replace ''/'' ''__'' (str_replace out [] p)),
      translate_stage_name = map lower_char,
      checkpoint_extension = ''.checkpoint'',
      check_shell = (\<lambda>c. list_ex (\<lambda>x. x = CHR ''|'' \<or> x = CHR ''>'' \<or> x = CHR ''*''
                                      \<or> x = CHR ''<'') c),
      glob = (\<lambda>p ex. if p \<in> ex then [p] else [])\<rparr>"

definition example_pm :: pm where
  "example_pm =
     \<lparr>name = ''p'', outfolder = ''/o/'', cleanup_file = ''/o/p_cleanup.sh'',
      overwrite_locks = False, force_follow = False, manual_clean = False,
      overwrite_checkpoints = False, wait = True, status = Running, locks = [],
      procs = [], peak_memory = 0, cleanup_list = [], cleanup_list_conditional = [],
      files = {''/o/p_running.flag''}, dirs = {''/o''}, denied = {},
      proc_status = (\<lambda>_. NoFile), docker_usage = (\<lambda>_. Inl CalledProcessError),
      os_exec = (\<lambda>c sh. Child 7 [] 0), rivals = [], clock = 0, profile = [],
      commands = [], cleanup_script = [], trace = []\<rparr>"

definition example_args :: run_args where
  "example_args =
     \<lparr>cmd = Single ''echo hi'', target = Some (Path ''/o/t''), lock_name = None,
      shell = Guess, nofail = False, clean = False, follow = Callable, container = None,
      checkpoint = None, checkpoint_filename = None, overwrite_checkpoint = False\<rparr>"

text \<open>
  Variations: the target and a checkpoint file of the stage \<open>stage\<close> on disk; a manager
  holding the lock \<open>/o/lock.t\<close> with a live child 7; a folder in which the lock file
  cannot be created.
\<close>

definition target_on_disk :: pm where
  "target_on_disk =
     example_pm\<lparr>force_follow := True, files := {''/o/p_running.flag'', ''/o/t''}\<rparr>"

definition checkpoint_on_disk :: pm where
  "checkpoint_on_disk =
     example_pm\<lparr>force_follow := True,
       files := {''/o/p_running.flag'', ''/o/t'', ''/o/stage.checkpoint''}\<rparr>"

definition holding_lock :: pm where
  "holding_lock =
     example_pm\<lparr>locks := [''/o/lock.t''],
       files := {''/o/p_running.flag'', ''/o/lock.t''},
       procs := [(7, \<lparr>proc_name = ''echo'', start_time = 0, pre_block = True,
                       proc_container = None\<rparr>)],
       proc_status := (\<lambda>_. Content [''VmHWM:    1234 kB''])\<rparr>"

definition lock_refused :: pm where
  "lock_refused = example_pm\<lparr>denied := {''/o/lock.t''}\<rparr>"

definition staged_args :: run_args where
  "staged_args = example_args\<lparr>checkpoint := Some ''stage''\<rparr>"


text \<open>
  The state left by \<open>run("echo hi", target="/o/t")\<close> on a manager that does not wait for
  its children (\<open>wait = False\<close>), on a machine without \<open>/proc\<close>: the child stays
  registered in \<open>procs\<close>.
\<close>

definition after_unwaited_run :: pm where
  "after_unwaited_run =
     (case run example_helpers 1 example_args (example_pm\<lparr>wait := False\<rparr>) of
        Some (_, s) \<Rightarrow> s
      | None \<Rightarrow> example_pm)"

section \<open>Properties of the failure path\<close>

lemma samplable_frame:
  "proc_status s' = proc_status s \<Longrightarrow> docker_usage s' = docker_usage s \<Longrightarrow>
   samplable s' kv = samplable s kv"
  by (simp add: samplable_def memory_usage_def)

lemma final_row_frame:
  "proc_status s' = proc_status s \<Longrightarrow> docker_usage s' = docker_usage s \<Longrightarrow>
   clock s' = clock s \<Longrightarrow> final_row s' kv = final_row s kv"
  by (simp add: final_row_def memory_usage_def)

lemma terminate_step:
  "memory_usage s pid Hwm (proc_container info) = Inr kb \<Longrightarrow>
   terminate_loop ((pid, info) # ps) s =
   terminate_loop ps (s\<lparr>profile := profile s @ [final_row s (pid, info)], trace := trace s @ [Kill pid],
               procs := del_proc pid (procs s)\<rparr>)"
  by (simp add: report_profile_def kill_child_process_def final_row_def)


lemma terminate_loop_ok:
  "list_all (samplable s) ps \<Longrightarrow>
   terminate_loop ps s =
     (Inr (), s\<lparr>procs := filter (\<lambda>kv. fst kv \<notin> set (map fst ps)) (procs s),
                profile := profile s @ map (final_row s) ps,
                trace := trace s @ map (\<lambda>kv. Kill (fst kv)) ps\<rparr>)"
proof (induction ps arbitrary: s)
  case Nil
  then show ?case by simp
next
  case (Cons kv ps)
  obtain pid info where kv: "kv = (pid, info)" by (cases kv)
  from Cons.prems obtain kb where kb: "memory_usage s pid Hwm (proc_container info) = Inr kb"
    by (auto simp: samplable_def kv split: sum.splits)
  define s3 where "s3 = s\<lparr>profile := profile s @ [final_row s (pid, info)], trace := trace s @ [Kill pid],
               procs := del_proc pid (procs s)\<rparr>"
  have fr: "proc_status s3 = proc_status s" "docker_usage s3 = docker_usage s" "clock s3 = clock s"
    by (simp_all add: s3_def)
  have sam: "samplable s3 = samplable s"
    using samplable_frame [OF fr(1,2)] by (rule ext)
  have row: "final_row s3 = final_row s"
    using final_row_frame [OF fr] by (rule ext)
  have all: "list_all (samplable s3) ps"
    using Cons.prems by (simp add: sam)
  have step: "terminate_loop (kv # ps) s = terminate_loop ps s3"
    unfolding kv s3_def by (rule terminate_step [OF kb])
  show ?case
    unfolding step Cons.IH [OF all] row
    by (simp add: s3_def kv del_proc_def conj_commute)
qed


lemma recoverfile_frame:
  "name s' = name s \<Longrightarrow> outfolder s' = outfolder s \<Longrightarrow>
   recoverfile_from_lockfile h s' l = recoverfile_from_lockfile h s l"
  by (simp add: recoverfile_from_lockfile_def make_lock_path_def)

lemma foldl_remove1_self: "foldl (\<lambda>acc l. remove1 l acc) xs xs = []"
  by (induction xs) simp_all

lemma recover_loop_ok:
  "distinct (map (recoverfile_from_lockfile h s) ls) \<Longrightarrow>
   list_all (\<lambda>l. \<not> path_exists s (recoverfile_from_lockfile h s l)
                \<and> recoverfile_from_lockfile h s l \<notin> denied s) ls \<Longrightarrow>
   recover_loop h ls s =
     (Inr (), s\<lparr>files := files s \<union> recoverfile_from_lockfile h s ` set ls,
                locks := foldl (\<lambda>acc l. remove1 l acc) (locks s) ls\<rparr>)"
proof (induction ls arbitrary: s)
  case Nil
  then show ?case by simp
next
  case (Cons l ls)
  define rf where "rf = recoverfile_from_lockfile h s"
  define s1 where "s1 = s\<lparr>files := insert (rf l) (files s), locks := remove1 l (locks s)\<rparr>"
  have rf1: "recoverfile_from_lockfile h s1 = rf"
    unfolding rf_def by (rule ext, rule recoverfile_frame) (simp_all add: s1_def)
  from Cons.prems have ok: "\<not> path_exists s (rf l)" "rf l \<notin> denied s"
    by (simp_all add: rf_def)
  have step: "recover_loop h (l # ls) s = recover_loop h ls s1"
    using ok by (simp add: create_file_racefree_def rf_def s1_def)
  from Cons.prems have d: "distinct (map rf ls)" and notin: "rf l \<notin> rf ` set ls"
    by (simp_all add: rf_def)
  from Cons.prems have rest: "list_all (\<lambda>x. \<not> path_exists s (rf x) \<and> rf x \<notin> denied s) ls"
    by (simp add: rf_def)
  have rest1: "list_all (\<lambda>x. \<not> path_exists s1 (rf x) \<and> rf x \<notin> denied s1) ls"
  proof -
    have "\<not> path_exists s1 (rf x) \<and> rf x \<notin> denied s1" if x: "x \<in> set ls" for x
    proof -
      from x notin have "rf x \<noteq> rf l" by (metis imageI)
      moreover from x rest have "\<not> path_exists s (rf x) \<and> rf x \<notin> denied s"
        by (simp add: list_all_iff)
      ultimately show ?thesis by (simp add: s1_def path_exists_def)
    qed
    then show ?thesis by (simp add: list_all_iff)
  qed
  have ih: "recover_loop h ls s1 =
     (Inr (), s1\<lparr>files := files s1 \<union> rf ` set ls,
                locks := foldl (\<lambda>acc l. remove1 l acc) (locks s1) ls\<rparr>)"
    using Cons.IH [of s1] d rest1 unfolding rf1 by simp
  show ?case
    unfolding step ih rf_def [symmetric] by (simp add: s1_def)
qed

lemma cleanup_dry_run_lists:
  "cleanup_list (cleanup_dry_run h s) = [] \<and>
   cleanup_list_conditional (cleanup_dry_run h s) = cleanup_list_conditional s @ cleanup_list s"
  by (simp add: cleanup_dry_run_def Let_def)

lemma cleanup_dry_run_frame:
  "status (cleanup_dry_run h s) = status s \<and> locks (cleanup_dry_run h s) = locks s
   \<and> procs (cleanup_dry_run h s) = procs s \<and> trace (cleanup_dry_run h s) = trace s
   \<and> name (cleanup_dry_run h s) = name s \<and> outfolder (cleanup_dry_run h s) = outfolder s
   \<and> cleanup_file (cleanup_dry_run h s) = cleanup_file s"
  by (simp add: cleanup_dry_run_def Let_def)

lemma cleanup_dry_run_files:
  "files s \<subseteq> files (cleanup_dry_run h s) \<and>
   files (cleanup_dry_run h s) \<subseteq> insert (cleanup_file s) (files s)"
  by (auto simp: cleanup_dry_run_def Let_def)

lemma set_status_flag_frame:
  "status (set_status_flag h st s) = st \<and> locks (set_status_flag h st s) = locks s
   \<and> procs (set_status_flag h st s) = procs s \<and> trace (set_status_flag h st s) = trace s
   \<and> cleanup_list (set_status_flag h st s) = cleanup_list s
   \<and> cleanup_list_conditional (set_status_flag h st s) = cleanup_list_conditional s"
  by (simp add: set_status_flag_def create_file_def Let_def)

lemma set_status_flag_files:
  "files (set_status_flag h st s) =
     insert (flag_file_path h (s\<lparr>status := st\<rparr>)) (files s - {flag_file_path h s})"
  by (simp add: set_status_flag_def create_file_def Let_def flag_file_path_def)

lemma flag_file_path_frame:
  "name s' = name s \<Longrightarrow> outfolder s' = outfolder s \<Longrightarrow> status s' = status s \<Longrightarrow>
   flag_file_path h s' = flag_file_path h s"
  by (simp add: flag_file_path_def)

lemma fail_pipeline_after_terminate:
  assumes "list_all (samplable s) (procs s)"
  shows "fail_pipeline h e dr s =
     (let s1 = s\<lparr>procs := [], profile := profile s @ map (final_row s) (procs s),
                  trace := trace s @ map (\<lambda>kv. Kill (fst kv)) (procs s)\<rparr> in
      case (if dr then recover_loop h (locks s1) s1 else (Inr (), s1)) of
        (Inl x, s2) \<Rightarrow> (x, s2)
      | (Inr _, s2) \<Rightarrow>
          (let s3 = cleanup_dry_run h s2;
               s4 = (if status s3 \<noteq> Failed then set_status_flag h Failed s3 else s3)
           in (e, s4)))"
proof -
  have "filter (\<lambda>kv. fst kv \<notin> set (map fst (procs s))) (procs s) = []"
    by (simp add: filter_empty_conv)
  then show ?thesis
    unfolding fail_pipeline_def terminate_running_subprocesses_def terminate_loop_ok [OF assms]
    by simp
qed

lemma finish_failure:
  assumes s4_def: "s4 = (let s3 = cleanup_dry_run h s2 in
                   if status s3 \<noteq> Failed then set_status_flag h Failed s3 else s3)"
  shows "status s4 = Failed" and "locks s4 = locks s2" and "procs s4 = procs s2"
    and "trace s4 = trace s2" and "cleanup_list s4 = []"
    and "cleanup_list_conditional s4 = cleanup_list_conditional s2 @ cleanup_list s2"
    and "files s2 - {flag_file_path h s2} \<subseteq> files s4"
    and "files s4 \<subseteq> files s2 \<union> {cleanup_file s2, flag_file_path h (s2\<lparr>status := Failed\<rparr>)}"
proof -
  define s3 where "s3 = cleanup_dry_run h s2"
  have fr: "status s3 = status s2" "locks s3 = locks s2" "procs s3 = procs s2"
    "trace s3 = trace s2" "name s3 = name s2" "outfolder s3 = outfolder s2"
    "cleanup_file s3 = cleanup_file s2"
    using cleanup_dry_run_frame [where h = h and s = s2] by (simp_all add: s3_def)
  have ls: "cleanup_list s3 = []"
    "cleanup_list_conditional s3 = cleanup_list_conditional s2 @ cleanup_list s2"
    using cleanup_dry_run_lists [where h = h and s = s2] by (simp_all add: s3_def)
  have fs: "files s2 \<subseteq> files s3" "files s3 \<subseteq> insert (cleanup_file s2) (files s2)"
    using cleanup_dry_run_files [where h = h and s = s2] by (simp_all add: s3_def)
  have fp: "flag_file_path h s3 = flag_file_path h s2"
    by (rule flag_file_path_frame) (simp_all add: fr)
  have fp': "flag_file_path h (s3\<lparr>status := Failed\<rparr>) = flag_file_path h (s2\<lparr>status := Failed\<rparr>)"
    by (rule flag_file_path_frame) (simp_all add: fr)
  have s4: "s4 = (if status s3 \<noteq> Failed then set_status_flag h Failed s3 else s3)"
    by (simp add: s4_def s3_def)
  show "status s4 = Failed" "locks s4 = locks s2" "procs s4 = procs s2" "trace s4 = trace s2"
    "cleanup_list s4 = []"
    "cleanup_list_conditional s4 = cleanup_list_conditional s2 @ cleanup_list s2"
    using set_status_flag_frame [where h = h and st = Failed and s = s3] by (simp_all add: s4 fr ls)
  show "files s2 - {flag_file_path h s2} \<subseteq> files s4"
    using fs by (auto simp: s4 set_status_flag_files fp)
  show "files s4 \<subseteq> files s2 \<union> {cleanup_file s2, flag_file_path h (s2\<lparr>status := Failed\<rparr>)}"
    using fs by (auto simp: s4 set_status_flag_files fp fp')
qed


lemma fail_pipeline_plain:
  assumes sam: "list_all (samplable s) (procs s)"
  defines "s1 \<equiv> s\<lparr>procs := [], profile := profile s @ map (final_row s) (procs s),
                  trace := trace s @ map (\<lambda>kv. Kill (fst kv)) (procs s)\<rparr>"
  shows "fail_pipeline h e False s =
           (e, let s3 = cleanup_dry_run h s1 in
               if status s3 \<noteq> Failed then set_status_flag h Failed s3 else s3)"
  unfolding fail_pipeline_after_terminate [OF sam] s1_def by (simp add: Let_def)

lemma fail_pipeline_recover:
  assumes sam: "list_all (samplable s) (procs s)" and rec: "recoverable h s"
  defines "s2 \<equiv> s\<lparr>procs := [], profile := profile s @ map (final_row s) (procs s),
                  trace := trace s @ map (\<lambda>kv. Kill (fst kv)) (procs s),
                  files := files s \<union> recoverfile_from_lockfile h s ` set (locks s),
                  locks := []\<rparr>"
  shows "fail_pipeline h e True s =
           (e, let s3 = cleanup_dry_run h s2 in
               if status s3 \<noteq> Failed then set_status_flag h Failed s3 else s3)"
proof -
  define s1 where "s1 = s\<lparr>procs := [], profile := profile s @ map (final_row s) (procs s),
                  trace := trace s @ map (\<lambda>kv. Kill (fst kv)) (procs s)\<rparr>"
  have rf: "recoverfile_from_lockfile h s1 = recoverfile_from_lockfile h s"
    by (rule ext, rule recoverfile_frame) (simp_all add: s1_def)
  have l1: "locks s1 = locks s" by (simp add: s1_def)
  have pe: "path_exists s1 = path_exists s" by (rule ext) (simp add: s1_def path_exists_def)
  have dn: "denied s1 = denied s" by (simp add: s1_def)
  from rec have d: "distinct (map (recoverfile_from_lockfile h s1) (locks s1))"
    by (simp add: recoverable_def rf l1)
  from rec have a: "list_all (\<lambda>l. \<not> path_exists s1 (recoverfile_from_lockfile h s1 l)
                \<and> recoverfile_from_lockfile h s1 l \<notin> denied s1) (locks s1)"
    by (simp add: recoverable_def rf l1 pe dn list_all_iff)
  have rl: "recover_loop h (locks s1) s1 = (Inr (), s2)"
    unfolding recover_loop_ok [OF d a] foldl_remove1_self rf
    by (simp add: s1_def s2_def)
  show ?thesis
    unfolding fail_pipeline_after_terminate [OF sam] s1_def [symmetric]
    by (simp add: Let_def rl)
qed

section \<open>Recovery file naming\<close>

text \<open>
  Claim C5: the recovery path is obtained from the lock path by substituting the prefix
  \<open>lock.\<close> with \<open>recover.lock.\<close> on the file name only, the directory part staying as
  it is, even when the directory or the target name contains \<open>lock.\<close>.
  \<open>_recoverfile_from_lockfile\<close> calls \<open>str.replace\<close> on the whole path, so every
  occurrence is rewritten: a lock in the folder \<open>/data/block.1/\<close> gets a recovery path in
  another folder, and a target name containing \<open>lock.\<close> is rewritten inside.
\<close>

theorem recoverfile_rewrites_every_occurrence:
  "recoverfile_from_lockfile h s ''/data/block.1/lock.out.txt''
     = ''/data/brecover.lock.1/recover.lock.out.txt''
   \<and> recoverfile_from_lockfile h s ''/data/block.1/lock.out.txt''
     \<noteq> ''/data/block.1/recover.lock.out.txt''
   \<and> recoverfile_from_lockfile h s ''/o/lock.block.1__x''
     = ''/o/recover.lock.brecover.lock.1__x''"
  by (simp add: recoverfile_from_lockfile_def isabs_def startswith_def LOCK_PREFIX_def)

section \<open>Memory sampling without a status file\<close>

text \<open>
  Claim C9: the direct-process sampler never raises when \<open>/proc/<pid>/status\<close> is absent
  or disappears between open and read. In \<open>_memory_usage\<close> the \<open>try\<close> has a \<open>finally\<close>
  and no \<open>except\<close>: for every pid and category, with the file absent the \<open>IOError\<close> of
  \<open>open\<close> reaches the caller, and so does the error of a read that fails.
\<close>

theorem memory_usage_raises_without_status_file:
  "memory_usage (s\<lparr>proc_status := (proc_status s)(pid := NoFile)\<rparr>) pid cat None
     = Inl (IOError (Some ENOENT))
   \<and> memory_usage (s\<lparr>proc_status := (proc_status s)(pid := Unreadable)\<rparr>) pid cat None
     = Inl (IOError (Some ESRCH))"
  by (simp add: memory_usage_def truthy_def)

lemma memory_usage_reads_high_water_mark:
  "memory_usage (example_pm\<lparr>proc_status := (\<lambda>_. Content
      [''Name:   echo'', ''VmPeak:   2000 kB'', ''VmHWM:    1234 kB''])\<rparr>) 7 Hwm None = Inr 1234"
  by code_simp

section \<open>Command lists, profile rows and the lock list\<close>

text \<open>
  Claim C7: for a list of commands, the commands run in list order, \<open>run\<close> returns the
  maximum of their return codes and the peak memory is the maximum over the elements; a
  single command is run once. The fold over the list starts from 0, so a list whose only
  command cannot be started (return code \<open>-1\<close>, with \<open>nofail\<close>) makes \<open>run\<close> return 0,
  where the same command given as a single string returns \<open>-1\<close>.
\<close>

theorem run_list_returns_zero_for_failed_command:
  "map_option fst
     (run example_helpers 1 (example_args\<lparr>cmd := Many [''nosuch''], nofail := True\<rparr>)
        (example_pm\<lparr>os_exec := \<lambda>_ _. ExecFails ENOENT\<rparr>)) = Some (Inr 0)
   \<and> map_option fst
     (run example_helpers 1 (example_args\<lparr>cmd := Single ''nosuch'', nofail := True\<rparr>)
        (example_pm\<lparr>os_exec := \<lambda>_ _. ExecFails ENOENT\<rparr>)) = Some (Inr (- 1))"
  by code_simp

text \<open>
  Claim C8: every child reaped during a \<open>run\<close> call gets one profile row with the command
  name, the name of the lock held for that call, the elapsed time and the peak memory.
  \<open>run\<close> calls \<open>callprint\<close> without a lock name, so the row of the child of
  \<open>run("echo hi", target="/o/t")\<close>, which holds \<open>/o/lock.t\<close>, has no lock name.
\<close>

theorem run_profile_row_has_no_lock_name:
  "map_option (\<lambda>r. profile (snd r)) (run example_helpers 1 example_args example_pm)
     = Some [\<lparr>row_command = ''echo'', row_lock = None, row_elapsed = 0, row_memory = - 1\<rparr>]"
  by code_simp

text \<open>
  Claim C4: at every quiescent point \<open>locks\<close> holds exactly the live lock files this
  process created, without duplicates, and it is empty after normal completion; in
  particular a lost race for the lock file leaves no entry behind. \<open>run\<close> appends the
  path to \<open>locks\<close> before the exclusive creation and does not take it back when the
  creation finds the file: when another process creates \<open>/o/lock.t\<close> in between and
  removes it later, \<open>run\<close> returns 0 with \<open>/o/lock.t\<close> still in \<open>locks\<close> and no such
  file on disk.
\<close>

theorem run_lost_race_leaves_lock_entry:
  "map_option (\<lambda>r. (fst r, locks (snd r), isfile (snd r) ''/o/lock.t''))
     (run example_helpers 3 example_args
        (example_pm\<lparr>rivals := [Touch ''/o/lock.t'', Unlink ''/o/lock.t'']\<rparr>))
     = Some (Inr 0, [''/o/lock.t''], False)"
  by code_simp

section \<open>What \<open>fail_pipeline\<close> does\<close>

text \<open>
  Claim C3, as amended: when the last sample of every registered child can be taken and,
  with \<open>dynamic_recover\<close> set, the recovery files of the held locks can be created,
  \<open>fail_pipeline\<close> terminates every registered child and empties \<open>procs\<close>; if
  \<open>dynamic_recover\<close> is set it writes a recovery file for every path in \<open>locks\<close> and
  clears \<open>locks\<close>, and otherwise it leaves \<open>locks\<close> as it is and creates no file but
  the cleanup script and the new flag file; it runs the cleanup as a dry run, which moves
  the unconditional list behind the conditional one and deletes nothing (only the previous
  flag file is removed, by the status change); it sets the status to failed whatever the
  status was before; and it raises the exception it was given.
\<close>

theorem fail_pipeline_effects:
  assumes sam: "list_all (samplable s) (procs s)"
      and rec: "dynamic_recover \<longrightarrow> recoverable h s"
  shows "fst (fail_pipeline h e dynamic_recover s) = e
    \<and> procs (snd (fail_pipeline h e dynamic_recover s)) = []
    \<and> trace (snd (fail_pipeline h e dynamic_recover s))
        = trace s @ map (\<lambda>kv. Kill (fst kv)) (procs s)
    \<and> (if dynamic_recover
        then locks (snd (fail_pipeline h e dynamic_recover s)) = []
           \<and> (\<forall>l \<in> set (locks s). isfile (snd (fail_pipeline h e dynamic_recover s))
                                      (recoverfile_from_lockfile h s l))
        else locks (snd (fail_pipeline h e dynamic_recover s)) = locks s
           \<and> files (snd (fail_pipeline h e dynamic_recover s))
               \<subseteq> files s \<union> {cleanup_file s, flag_file_path h (s\<lparr>status := Failed\<rparr>)})
    \<and> files s - {flag_file_path h s} \<subseteq> files (snd (fail_pipeline h e dynamic_recover s))
    \<and> cleanup_list (snd (fail_pipeline h e dynamic_recover s)) = []
    \<and> cleanup_list_conditional (snd (fail_pipeline h e dynamic_recover s))
        = cleanup_list_conditional s @ cleanup_list s
    \<and> status (snd (fail_pipeline h e dynamic_recover s)) = Failed"
proof (cases dynamic_recover)
  case False
  define s1 where "s1 = s\<lparr>procs := [], profile := profile s @ map (final_row s) (procs s),
                  trace := trace s @ map (\<lambda>kv. Kill (fst kv)) (procs s)\<rparr>"
  define s4 where "s4 = (let s3 = cleanup_dry_run h s1 in
               if status s3 \<noteq> Failed then set_status_flag h Failed s3 else s3)"
  have fp: "fail_pipeline h e dynamic_recover s = (e, s4)"
    using fail_pipeline_plain [OF sam] False by (simp add: s4_def s1_def)
  have p1: "flag_file_path h s1 = flag_file_path h s"
    by (rule flag_file_path_frame) (simp_all add: s1_def)
  have p2: "flag_file_path h (s1\<lparr>status := Failed\<rparr>) = flag_file_path h (s\<lparr>status := Failed\<rparr>)"
    by (rule flag_file_path_frame) (simp_all add: s1_def)
  note ff = finish_failure [OF s4_def]
  show ?thesis
    unfolding fp using False ff by (simp add: p1 p2) (simp add: s1_def)
next
  case True
  define rf where "rf = recoverfile_from_lockfile h s"
  define s2 where "s2 = s\<lparr>procs := [], profile := profile s @ map (final_row s) (procs s),
                  trace := trace s @ map (\<lambda>kv. Kill (fst kv)) (procs s),
                  files := files s \<union> rf ` set (locks s),
                  locks := []\<rparr>"
  define s4 where "s4 = (let s3 = cleanup_dry_run h s2 in
               if status s3 \<noteq> Failed then set_status_flag h Failed s3 else s3)"
  from True rec have r: "recoverable h s" by simp
  have fp: "fail_pipeline h e dynamic_recover s = (e, s4)"
    using fail_pipeline_recover [OF sam r] True by (simp add: s4_def s2_def rf_def)
  have p1: "flag_file_path h s2 = flag_file_path h s"
    by (rule flag_file_path_frame) (simp_all add: s2_def)
  note ff = finish_failure [OF s4_def]
  have keep: "files s2 - {flag_file_path h s} \<subseteq> files s4"
    using ff(7) by (simp add: p1)
  have rfs: "\<forall>l \<in> set (locks s). isfile s4 (rf l)"
  proof
    fix l assume l: "l \<in> set (locks s)"
    with r have "rf l \<noteq> flag_file_path h s"
      by (simp add: recoverable_def list_all_iff rf_def)
    moreover from l have "rf l \<in> files s2" by (simp add: s2_def)
    ultimately show "isfile s4 (rf l)" using keep by (auto simp: isfile_def)
  qed
  have keep': "files s - {flag_file_path h s} \<subseteq> files s4"
    using keep by (auto simp: s2_def)
  show ?thesis
    unfolding fp using True ff(1-6) rfs keep' by (simp add: rf_def) (simp add: s2_def)
qed

theorem fail_pipeline_effects_witness:
  "list_all (samplable holding_lock) (procs holding_lock)
   \<and> recoverable example_helpers holding_lock
   \<and> fst (fail_pipeline example_helpers (KeyboardInterrupt ''SIGTERM'') True holding_lock)
       = KeyboardInterrupt ''SIGTERM''
   \<and> procs (snd (fail_pipeline example_helpers (KeyboardInterrupt ''SIGTERM'') True holding_lock)) = []
   \<and> trace (snd (fail_pipeline example_helpers (KeyboardInterrupt ''SIGTERM'') True holding_lock))
       = [Kill 7]
   \<and> locks (snd (fail_pipeline example_helpers (KeyboardInterrupt ''SIGTERM'') True holding_lock)) = []
   \<and> isfile (snd (fail_pipeline example_helpers (KeyboardInterrupt ''SIGTERM'') True holding_lock))
        ''/o/recover.lock.t''
   \<and> status (snd (fail_pipeline example_helpers (KeyboardInterrupt ''SIGTERM'') True holding_lock))
       = Failed"
proof -
  have sam: "list_all (samplable holding_lock) (procs holding_lock)" by code_simp
  have rec: "recoverable example_helpers holding_lock" by code_simp
  have lk: "locks holding_lock = [''/o/lock.t'']" by code_simp
  have rf: "recoverfile_from_lockfile example_helpers holding_lock ''/o/lock.t'' = ''/o/recover.lock.t''"
    by code_simp
  have pr: "map (\<lambda>kv. Kill (fst kv)) (procs holding_lock) = [Kill 7]" by code_simp
  have tr: "trace holding_lock = []" by code_simp
  from fail_pipeline_effects [of holding_lock True example_helpers "KeyboardInterrupt ''SIGTERM''"]
    sam rec
  show ?thesis by (simp add: lk rf pr tr)
qed

text \<open>
  As stated, C3 fails: without \<open>dynamic_recover\<close> (the default, used for argument and
  process errors) a held lock gets no recovery file and stays in \<open>locks\<close>, and a
  completed pipeline is set to failed.
\<close>

theorem fail_pipeline_keeps_locks_without_dynamic_recover:
  "locks (snd (fail_pipeline example_helpers (OSError None) False holding_lock)) = [''/o/lock.t'']
   \<and> \<not> isfile (snd (fail_pipeline example_helpers (OSError None) False holding_lock))
          ''/o/recover.lock.t''
   \<and> status (snd (fail_pipeline example_helpers (OSError None) False
                    (example_pm\<lparr>status := Completed\<rparr>))) = Failed"
  by code_simp

section \<open>The checks before the loop\<close>





text \<open>
  Claim C6: every call to \<open>run\<close> with neither target nor lock name fails the pipeline,
  whatever the other arguments are: \<open>run\<close> does not return normally and the pipeline
  enters the failed state. \<open>run\<close> hands the argument error to \<open>fail_pipeline\<close>, which
  first takes a last memory sample of every child in \<open>procs\<close>; the sampler has no
  \<open>except\<close> clause, so with a registered child whose status file cannot be opened the
  \<open>IOError\<close> leaves \<open>fail_pipeline\<close> before the status is set. After a first call on a
  manager that does not wait, a call without target and lock name ends in that
  \<open>IOError\<close> and the status is still running.
\<close>

theorem run_without_target_and_lock_keeps_running_status:
  "map_option fst (run example_helpers 1 example_args (example_pm\<lparr>wait := False\<rparr>)) = Some (Inr 0)
   \<and> map fst (procs after_unwaited_run) = [7]
   \<and> status after_unwaited_run = Running
   \<and> target (example_args\<lparr>target := None\<rparr>) = None
   \<and> lock_name (example_args\<lparr>target := None\<rparr>) = None
   \<and> map_option (\<lambda>r. (fst r, status (snd r)))
        (run example_helpers 1 (example_args\<lparr>target := None\<rparr>) after_unwaited_run)
       = Some (Inl (IOError (Some ENOENT)), Running)"
  by code_simp

text \<open>
  What does hold for such a call: \<open>run\<close> always ends in an exception, and when the last
  sample of every registered child can be taken, the exception is the argument error and
  the status is failed.
\<close>

theorem run_without_target_and_lock_fails:
  assumes "target a = None" and "lock_name a = None"
  shows "\<exists>x s'. run h fuel a s = Some (Inl x, s')
           \<and> (list_all (samplable s) (procs s) \<longrightarrow>
                x = PyException ''You must provide either a target or a lock_name.''
                \<and> status s' = Failed)"
proof -
  let ?e = "PyException ''You must provide either a target or a lock_name.''"
  obtain x s' where fp: "fail_pipeline h ?e False s = (x, s')" by (cases "fail_pipeline h ?e False s")
  have r: "run h fuel a s = Some (Inl x, s')"
    using assms by (simp add: run_def fp)
  have "x = ?e \<and> status s' = Failed" if sam: "list_all (samplable s) (procs s)"
  proof -
    define s1 where "s1 = s\<lparr>procs := [], profile := profile s @ map (final_row s) (procs s),
                  trace := trace s @ map (\<lambda>kv. Kill (fst kv)) (procs s)\<rparr>"
    define s4 where "s4 = (let s3 = cleanup_dry_run h s1 in
               if status s3 \<noteq> Failed then set_status_flag h Failed s3 else s3)"
    have "fail_pipeline h ?e False s = (?e, s4)"
      using fail_pipeline_plain [OF sam] by (simp add: s4_def s1_def)
    with fp have "x = ?e" "s' = s4" by simp_all
    then show ?thesis using finish_failure(1) [OF s4_def] by simp
  qed
  with r show ?thesis by blast
qed

theorem run_without_target_and_lock_fails_witness:
  "target (example_args\<lparr>target := None\<rparr>) = None
   \<and> lock_name (example_args\<lparr>target := None\<rparr>) = None
   \<and> list_all (samplable example_pm) (procs example_pm)
   \<and> map_option (\<lambda>r. (fst r, status (snd r)))
        (run example_helpers 0 (example_args\<lparr>target := None\<rparr>) example_pm)
       = Some (Inl (PyException ''You must provide either a target or a lock_name.''), Failed)"
proof -
  have a: "target (example_args\<lparr>target := None\<rparr>) = None" by simp
  have b: "lock_name (example_args\<lparr>target := None\<rparr>) = None" by (simp add: example_args_def)
  have c: "list_all (samplable example_pm) (procs example_pm)" by (simp add: example_pm_def)
  from run_without_target_and_lock_fails [OF a b, of example_helpers 0 example_pm] c
  obtain x s' where "run example_helpers 0 (example_args\<lparr>target := None\<rparr>) example_pm = Some (Inl x, s')"
    and "x = PyException ''You must provide either a target or a lock_name.''" and "status s' = Failed"
    by blast
  with a b c show ?thesis by simp
qed

section \<open>The loop of \<open>run\<close>\<close>

text \<open>
  Claim C1: for every call to \<open>run\<close> with a target, if the target exists on disk and
  no lock file for it exists, \<open>run\<close> starts no child, returns 0, and calls the follow-up
  function if and only if \<open>force_follow\<close> is set. When the call also names a checkpoint
  whose file exists, \<open>run\<close> returns 0 from the checkpoint search, before the loop: the
  follow-up function is not called although \<open>force_follow\<close> is set, the target exists and
  there is no lock file.
\<close>

theorem run_checkpoint_skips_forced_follow:
  "target staged_args = Some (Path ''/o/t'')
   \<and> path_exists checkpoint_on_disk ''/o/t''
   \<and> \<not> isfile checkpoint_on_disk ''/o/lock.t''
   \<and> force_follow checkpoint_on_disk \<and> follow staged_args = Callable
   \<and> map_option (\<lambda>r. (fst r, trace (snd r))) (run example_helpers 1 staged_args checkpoint_on_disk)
       = Some (Inr 0, [])"
  by code_simp

text \<open>
  When the checkpoint search does not end the call, the first round of the loop does what
  C1 says: for a target that is a path, or a non-empty list whose first path is used,
  \<open>run\<close> returns 0 and changes nothing, except that it calls the follow-up function,
  once, if and only if \<open>force_follow\<close> is set and the function is callable.
\<close>

theorem run_skips_existing_target:
  assumes tg: "first_target (target a) = Inr (Some t)"
      and ck: "\<not> checkpoint_skip h (overwrite_checkpoints s \<or> overwrite_checkpoint a) s
                 (check_names h a)"
      and ex: "path_exists s t"
      and lk: "\<not> isfile s (make_lock_path h s
                 (if truthy (lock_name a) then the (lock_name a)
                  else make_lock_name h (Some t) (outfolder s)))"
  shows "run h (Suc n) a s =
           Some (Inr 0, if force_follow s \<and> follow a = Callable
                        then s\<lparr>trace := trace s @ [Follow]\<rparr> else s)"
proof -
  from tg obtain tv where nn: "target a = Some tv"
    by (auto simp: first_target_def split: option.splits)
  from tg nn have tg': "first_target (Some tv) = Inr (Some t)" by simp
  have cf: "call_follow (follow a) s =
              (if follow a = Callable then s\<lparr>trace := trace s @ [Follow]\<rparr> else s)"
    by (cases "follow a") simp_all
  show ?thesis
    using ck ex lk by (simp add: run_def nn tg' Let_def cf)
qed

theorem run_skips_existing_target_witness:
  "first_target (target example_args) = Inr (Some ''/o/t'')
   \<and> \<not> checkpoint_skip example_helpers
         (overwrite_checkpoints target_on_disk \<or> overwrite_checkpoint example_args)
         target_on_disk (check_names example_helpers example_args)
   \<and> path_exists target_on_disk ''/o/t''
   \<and> \<not> isfile target_on_disk ''/o/lock.t''
   \<and> force_follow target_on_disk \<and> follow example_args = Callable
   \<and> run example_helpers 1 example_args target_on_disk
       = Some (Inr 0, target_on_disk\<lparr>trace := trace target_on_disk @ [Follow]\<rparr>)"
proof -
  have a: "first_target (target example_args) = Inr (Some ''/o/t'')" by code_simp
  have b: "\<not> checkpoint_skip example_helpers
         (overwrite_checkpoints target_on_disk \<or> overwrite_checkpoint example_args)
         target_on_disk (check_names example_helpers example_args)" by code_simp
  have c: "path_exists target_on_disk ''/o/t''" by code_simp
  have p: "make_lock_path example_helpers target_on_disk
                 (if truthy (lock_name example_args) then the (lock_name example_args)
                  else make_lock_name example_helpers (Some ''/o/t'') (outfolder target_on_disk))
           = ''/o/lock.t''" by code_simp
  have d: "\<not> isfile target_on_disk ''/o/lock.t''" by code_simp
  have f: "force_follow target_on_disk" "follow example_args = Callable" by code_simp+
  from run_skips_existing_target [OF a b c, of 0] p d f a b c
  show ?thesis by simp
qed

section \<open>Children started by a call\<close>


















lemma run_with_refused_lock_runs_command:
  "map_option (\<lambda>r. (fst r, trace (snd r), locks (snd r)))
     (run example_helpers 1 example_args lock_refused)
     = Some (Inl (OSError (Some ENOENT)), [Popen ''echo hi'' False, Follow], [''/o/lock.t''])"
  by code_simp

end
